theory Spec2Isabelle
  imports Complex_Main "HOL-Library.Word" "HOL-Library.AList"
begin

section \<open>The chat server of backend/server.js\<close>

text \<open>
  The server keeps every room in one in-memory table and reacts to socket events, to replies of
  the summarisation service, and to two timers (the inactivity sweep and the delayed clean-up
  after a summary). Each handler is embedded as a function from the server state to the server
  state. What a handler sends (socket events, the call to the summarisation service, a timer it
  sets, an exception it does not catch) is appended to the state's \<open>effects\<close>, in order.
  \<open>Date.now()\<close> is a parameter of the handler that reads it. Console output is not modelled,
  apart from the sweep's report.
\<close>

subsection \<open>JavaScript values\<close>

text \<open>
  A JavaScript string is a sequence of UTF-16 code units, and \<open>length\<close> counts code units.
  Texts that come from a client or from the summarisation service are \<open>js_string\<close>s. Room
  codes, socket identifiers, display names and the server's own error messages are only ever
  compared and passed on; they are HOL strings.
\<close>

type_synonym js_string = "16 word list"

definition js_str :: "string \<Rightarrow> js_string" where
  "js_str s = map of_char s"

text \<open>
  The values a payload or a parsed JSON text can hold. \<open>JNum x\<close> is a number of value \<open>x\<close>
  (\<open>JSON.parse\<close> never yields \<open>NaN\<close>). The entries of a \<open>JObj\<close> are the object's own
  properties.
\<close>

datatype js_value =
    JUndefined
  | JNull
  | JBool bool
  | JNum real
  | JStr js_string
  | JArr "js_value list"
  | JObj "(js_string \<times> js_value) list"

text \<open>What \<open>x || y\<close> and \<open>!x\<close> test.\<close>

fun truthy :: "js_value \<Rightarrow> bool" where
  "truthy JUndefined = False"
| "truthy JNull = False"
| "truthy (JBool b) = b"
| "truthy (JNum x) = (x \<noteq> 0)"
| "truthy (JStr s) = (s \<noteq> [])"
| "truthy (JArr xs) = True"
| "truthy (JObj kvs) = True"

text \<open>
  Reading a property \<open>v.key\<close>, for a key that neither \<open>Object.prototype\<close> nor the
  prototypes of arrays, strings, numbers and booleans define: \<open>None\<close> is the \<open>TypeError\<close> that
  reading a property of \<open>null\<close> or \<open>undefined\<close> throws.
\<close>

fun get_property :: "js_value \<Rightarrow> js_string \<Rightarrow> js_value option" where
  "get_property JUndefined key = None"
| "get_property JNull key = None"
| "get_property (JObj kvs) key =
     (case map_of kvs key of Some x \<Rightarrow> Some x | None \<Rightarrow> Some JUndefined)"
| "get_property v key = Some JUndefined"

text \<open>\<open>Array.isArray(v) ? v : []\<close>\<close>

fun array_or_empty :: "js_value \<Rightarrow> js_value list" where
  "array_or_empty (JArr xs) = xs"
| "array_or_empty v = []"

text \<open>
  The code units that \<open>String.prototype.trim\<close> strips and that \<open>\s\<close> matches: the white
  space and line terminator characters of ECMAScript.
\<close>

definition is_white_space :: "16 word \<Rightarrow> bool" where
  "is_white_space u \<longleftrightarrow>
     u = 0x09 \<or> u = 0x0A \<or> u = 0x0B \<or> u = 0x0C \<or> u = 0x0D \<or> u = 0x20 \<or> u = 0xA0 \<or>
     u = 0x1680 \<or> (0x2000 \<le> u \<and> u \<le> 0x200A) \<or> u = 0x2028 \<or> u = 0x2029 \<or>
     u = 0x202F \<or> u = 0x205F \<or> u = 0x3000 \<or> u = 0xFEFF"

definition trim :: "js_string \<Rightarrow> js_string" where
  "trim s = rev (dropWhile is_white_space (rev (dropWhile is_white_space s)))"

definition startsWith :: "js_string \<Rightarrow> js_string \<Rightarrow> bool" where
  "startsWith s p \<longleftrightarrow> take (length p) s = p"

subsection \<open>Configuration\<close>

definition MAX_MESSAGES_PER_ROOM :: nat where
  "MAX_MESSAGES_PER_ROOM = 1000"

definition MAX_CHARACTERS_PER_MESSAGE :: nat where
  "MAX_CHARACTERS_PER_MESSAGE = 5000"


subsection \<open>Rooms\<close>

record user =
  u_id :: string
  u_username :: string

record message =
  m_username :: string
  m_message :: js_string
  m_timestamp :: int

record room =
  users :: "user list"
  messages :: "message list"
  lastActivity :: int
  createdAt :: int

text \<open>
  The table \<open>rooms\<close> is a plain object: its own properties are the rooms, one per code, listed
  here as pairs. The order of the pairs plays no part in what the server does.
\<close>

type_synonym rooms = "(string \<times> room) list"

text \<open>
  \<open>rooms[roomCode]\<close> also finds what \<open>Object.prototype\<close> defines: for the keys below it is a
  function or an object, which is truthy and has no \<open>users\<close>, \<open>messages\<close> or
  \<open>lastActivity\<close>.
\<close>

definition object_prototype_keys :: "string list" where
  "object_prototype_keys =
     [''constructor'', ''__defineGetter__'', ''__defineSetter__'', ''hasOwnProperty'',
      ''__lookupGetter__'', ''__lookupSetter__'', ''isPrototypeOf'', ''propertyIsEnumerable'',
      ''toString'', ''valueOf'', ''__proto__'', ''toLocaleString'']"

datatype 'a property = Own 'a | Inherited | Absent

definition rooms_get :: "rooms \<Rightarrow> string \<Rightarrow> room property" where
  "rooms_get rs roomCode =
     (case map_of rs roomCode of
        Some r \<Rightarrow> Own r
      | None \<Rightarrow> if roomCode \<in> set object_prototype_keys then Inherited else Absent)"

text \<open>\<open>rooms[roomCode].lastActivity\<close>, for a room of the table.\<close>

definition room_lastActivity :: "rooms \<Rightarrow> string \<Rightarrow> int option" where
  "room_lastActivity rs roomCode =
     (case rooms_get rs roomCode of
        Own r \<Rightarrow> Some (lastActivity r)
      | Inherited \<Rightarrow> None
      | Absent \<Rightarrow> None)"

text \<open>\<open>rooms[roomCode].users\<close>, for a room of the table.\<close>

definition room_users :: "rooms \<Rightarrow> string \<Rightarrow> user list" where
  "room_users rs roomCode =
     (case rooms_get rs roomCode of
        Own r \<Rightarrow> users r
      | Inherited \<Rightarrow> []
      | Absent \<Rightarrow> [])"

subsection \<open>What the server sends\<close>

datatype recipient =
    To_socket string  \<comment> \<open>\<open>socket.emit\<close>: the connection whose event is being handled\<close>
  | To_room string    \<comment> \<open>\<open>io.to(roomCode).emit\<close>: every connection in the room\<close>

datatype emitted =
    Error_message string
  | User_joined string
  | Receive_message string js_string
  | Summary_generating string
  | Summary_generated string js_value "js_value list" "js_value list" nat
  | Room_closed string
  | User_left string

text \<open>
  \<open>Generate_content sid roomCode msgs\<close> is the call \<open>model.generateContent(prompt)\<close> made for
  the request of connection \<open>sid\<close>; the prompt is built from the transcript \<open>msgs\<close> (its
  wording, which prints each time stamp in the server's locale, is not modelled).
\<close>

datatype effect =
    Emit recipient emitted
  | Generate_content string string "message list"
  | Set_timeout string nat
  | Uncaught_TypeError
  | Log_expired nat

record server =
  rooms :: rooms
  socket_rooms :: "string \<Rightarrow> string list"
  effects :: "effect list"

definition emit :: "recipient \<Rightarrow> emitted \<Rightarrow> server \<Rightarrow> server" where
  "emit to ev st = st\<lparr>effects := effects st @ [Emit to ev]\<rparr>"

definition throw_TypeError :: "server \<Rightarrow> server" where
  "throw_TypeError st = st\<lparr>effects := effects st @ [Uncaught_TypeError]\<rparr>"

subsection \<open>Helper functions\<close>

datatype validation = Valid | Invalid string

definition validateMessage :: "js_value \<Rightarrow> validation" where
  "validateMessage message =
     (case message of
        JStr s \<Rightarrow>
          if s = [] then Invalid ''Message must be a non-empty string''
          else if length (trim s) = 0 then Invalid ''Message cannot be empty''
          else if length s > MAX_CHARACTERS_PER_MESSAGE
            then Invalid ''Message exceeds maximum length of 5000 characters''
          else Valid
      | _ \<Rightarrow> Invalid ''Message must be a non-empty string'')"

definition hasReachedMessageLimit :: "rooms \<Rightarrow> string \<Rightarrow> bool" where
  "hasReachedMessageLimit rs roomCode =
     (case rooms_get rs roomCode of
        Own r \<Rightarrow> length (messages r) \<ge> MAX_MESSAGES_PER_ROOM
      | Inherited \<Rightarrow> False
      | Absent \<Rightarrow> False)"

definition cleanupRoom :: "string \<Rightarrow> rooms \<Rightarrow> rooms" where
  "cleanupRoom roomCode rs =
     (case rooms_get rs roomCode of
        Own r \<Rightarrow> AList.delete roomCode rs
      | Inherited \<Rightarrow> rs
      | Absent \<Rightarrow> rs)"



subsection \<open>The summarisation gateway\<close>

text \<open>
  \<open>generateSummary\<close> is an \<open>async\<close> function with one point of suspension, the call to
  the summarisation service. Up to that point it runs within the handler that called it:
  \<open>generateSummary_request\<close> is that part, with the thrown error's message as \<open>Inl\<close>.
\<close>

definition generateSummary_request :: "rooms \<Rightarrow> string \<Rightarrow> string + message list" where
  "generateSummary_request rs roomCode =
     (case rooms_get rs roomCode of
        Own r \<Rightarrow>
          if length (messages r) = 0 then Inl ''No messages found in room''
          else Inr (messages r)
      | Inherited \<Rightarrow> Inl ''No messages found in room''
      | Absent \<Rightarrow> Inl ''No messages found in room'')"

text \<open>
  What comes back from the service: the call fails (\<open>Rejected\<close>), or it yields a text.
\<close>

datatype gateway_reply = Rejected | Replied js_string

definition fence :: js_string where
  "fence = [0x60, 0x60, 0x60]"

text \<open>\<open>s.replace(/^p\s*/, '')\<close> for a literal \<open>p\<close> that \<open>s\<close> starts with.\<close>

definition strip_opening :: "js_string \<Rightarrow> js_string \<Rightarrow> js_string" where
  "strip_opening p s = dropWhile is_white_space (drop (length p) s)"

text \<open>
  \<open>s.replace(/\s*```$/, '')\<close>: when \<open>s\<close> ends with the fence, the fence and the white space
  before it are removed; otherwise nothing matches.
\<close>

definition strip_closing :: "js_string \<Rightarrow> js_string" where
  "strip_closing s =
     (if startsWith (rev s) (rev fence)
      then rev (dropWhile is_white_space (drop (length fence) (rev s)))
      else s)"

definition cleanedText :: "js_string \<Rightarrow> js_string" where
  "cleanedText text =
     (let t = trim text in
      if startsWith t (fence @ js_str ''json'')
        then strip_closing (strip_opening (fence @ js_str ''json'') t)
      else if startsWith t fence
        then strip_closing (strip_opening fence t)
      else t)"

record summary =
  s_summary :: js_value
  s_keyPoints :: "js_value list"
  s_actionItems :: "js_value list"

text \<open>
  The object built from the parsed reply; \<open>None\<close> when reading a property of the parsed value
  throws.
\<close>

definition structure_summary :: "js_value \<Rightarrow> summary option" where
  "structure_summary summaryData =
     (case get_property summaryData (js_str ''summary'') of
        None \<Rightarrow> None
      | Some s \<Rightarrow>
          (case get_property summaryData (js_str ''keyPoints'') of
             None \<Rightarrow> None
           | Some k \<Rightarrow>
               (case get_property summaryData (js_str ''actionItems'') of
                  None \<Rightarrow> None
                | Some a \<Rightarrow>
                    Some \<lparr>s_summary = (if truthy s then s else JStr (js_str ''No summary available'')),
                          s_keyPoints = array_or_empty k,
                          s_actionItems = array_or_empty a\<rparr>)))"

text \<open>
  The rest of \<open>generateSummary\<close>, run when the service has answered. \<open>JSON.parse\<close> is the
  parameter \<open>parse\<close>, with \<open>None\<close> for the \<open>SyntaxError\<close> it throws. Whatever is thrown inside
  the \<open>try\<close> is replaced by one error.
\<close>

definition generateSummary_reply ::
  "(js_string \<Rightarrow> js_value option) \<Rightarrow> gateway_reply \<Rightarrow> string + summary" where
  "generateSummary_reply parse reply =
     (case reply of
        Rejected \<Rightarrow> Inl ''Failed to generate summary. Please try again.''
      | Replied text \<Rightarrow>
          (case parse (cleanedText text) of
             None \<Rightarrow> Inl ''Failed to generate summary. Please try again.''
           | Some summaryData \<Rightarrow>
               (case structure_summary summaryData of
                  None \<Rightarrow> Inl ''Failed to generate summary. Please try again.''
                | Some s \<Rightarrow> Inr s)))"

subsection \<open>Socket event handlers\<close>

text \<open>
  \<open>sid\<close> is \<open>socket.id\<close>, the connection whose event is handled. \<open>socket_rooms st sid\<close> is
  \<open>socket.rooms\<close>, the set of rooms the connection is in, in the order it entered them; it
  starts with the connection's own identifier.
\<close>

definition connection :: "string \<Rightarrow> server \<Rightarrow> server" where
  "connection sid st = st\<lparr>socket_rooms := (socket_rooms st)(sid := [sid])\<rparr>"

definition socket_join :: "string \<Rightarrow> string \<Rightarrow> server \<Rightarrow> server" where
  "socket_join sid roomCode st =
     (if roomCode \<in> set (socket_rooms st sid) then st
      else st\<lparr>socket_rooms := (socket_rooms st)(sid := socket_rooms st sid @ [roomCode])\<rparr>)"

definition join_room :: "string \<Rightarrow> string \<Rightarrow> string \<Rightarrow> int \<Rightarrow> server \<Rightarrow> server" where
  "join_room sid roomCode username now st =
     (case rooms_get (rooms st) roomCode of
        Absent \<Rightarrow> emit (To_socket sid) (Error_message ''Room does not exist'') st
      | Inherited \<Rightarrow> throw_TypeError (socket_join sid roomCode st)
      | Own r \<Rightarrow>
          emit (To_room roomCode) (User_joined username)
            ((socket_join sid roomCode st)
               \<lparr>rooms := AList.update roomCode
                  (r\<lparr>users := users r @ [\<lparr>u_id = sid, u_username = username\<rparr>],
                     lastActivity := now\<rparr>)
                  (rooms st)\<rparr>))"

text \<open>
  \<open>send_message\<close> reads the clock twice: \<open>ts\<close> for the message's time stamp, then \<open>now\<close> for
  the room's activity.
\<close>

definition send_message ::
  "string \<Rightarrow> string \<Rightarrow> string \<Rightarrow> js_value \<Rightarrow> int \<Rightarrow> int \<Rightarrow> server \<Rightarrow> server" where
  "send_message sid roomCode username message ts now st =
     (case rooms_get (rooms st) roomCode of
        Absent \<Rightarrow> emit (To_socket sid) (Error_message ''Room does not exist'') st
      | room \<Rightarrow>
          (case validateMessage message of
             Invalid e \<Rightarrow> emit (To_socket sid) (Error_message e) st
           | Valid \<Rightarrow>
               if hasReachedMessageLimit (rooms st) roomCode
               then emit (To_socket sid)
                      (Error_message ''Room has reached maximum message limit of 1000'') st
               else
                 (case (room, message) of
                    (Own r, JStr s) \<Rightarrow>
                      emit (To_room roomCode) (Receive_message username (trim s))
                        (st\<lparr>rooms := AList.update roomCode
                              (r\<lparr>messages := messages r @
                                    [\<lparr>m_username = username, m_message = trim s, m_timestamp = ts\<rparr>],
                                 lastActivity := now\<rparr>)
                              (rooms st)\<rparr>)
                  | _ \<Rightarrow> throw_TypeError st)))"

text \<open>
  \<open>generate_summary\<close> up to its \<open>await\<close>: the checks, the notice to the requester, and the
  part of \<open>generateSummary\<close> that runs at once.
\<close>

definition generate_summary :: "string \<Rightarrow> string \<Rightarrow> server \<Rightarrow> server" where
  "generate_summary sid roomCode st =
     (case rooms_get (rooms st) roomCode of
        Absent \<Rightarrow> emit (To_socket sid) (Error_message ''Room does not exist'') st
      | Inherited \<Rightarrow> emit (To_socket sid) (Error_message ''No messages to summarize'') st
      | Own r \<Rightarrow>
          if length (messages r) = 0
          then emit (To_socket sid) (Error_message ''No messages to summarize'') st
          else
            (let st1 = emit (To_socket sid) (Summary_generating roomCode) st in
             case generateSummary_request (rooms st1) roomCode of
               Inl e \<Rightarrow> emit (To_socket sid) (Error_message e) st1
             | Inr msgs \<Rightarrow> st1\<lparr>effects := effects st1 @ [Generate_content sid roomCode msgs]\<rparr>))"

text \<open>
  \<open>generate_summary\<close> after its \<open>await\<close>, when the service has answered with \<open>reply\<close>. The
  handler still holds the room object it looked up before the call, whether or not the table
  still does: \<open>room\<close> is that object as it is now.
\<close>

definition generate_summary_resume ::
  "string \<Rightarrow> string \<Rightarrow> room \<Rightarrow> (js_string \<Rightarrow> js_value option) \<Rightarrow> gateway_reply \<Rightarrow> server \<Rightarrow> server" where
  "generate_summary_resume sid roomCode room parse reply st =
     (case generateSummary_reply parse reply of
        Inl e \<Rightarrow> emit (To_socket sid) (Error_message e) st
      | Inr s \<Rightarrow>
          (let st1 = emit (To_room roomCode)
                       (Summary_generated roomCode (s_summary s) (s_keyPoints s) (s_actionItems s)
                          (length (messages room))) st
           in st1\<lparr>effects := effects st1 @ [Set_timeout roomCode 2000]\<rparr>))"

text \<open>The callback of the \<open>setTimeout\<close> set after a summary was sent.\<close>

definition summary_timeout :: "string \<Rightarrow> server \<Rightarrow> server" where
  "summary_timeout roomCode st =
     emit (To_room roomCode) (Room_closed roomCode) (st\<lparr>rooms := cleanupRoom roomCode (rooms st)\<rparr>)"

text \<open>
  \<open>disconnecting\<close>: the loop over \<open>socket.rooms\<close>. An exception ends the loop. The clock
  is read once in the turn of each room that the table holds, and it may have advanced between
  two turns: \<open>now roomCode\<close> is the reading made in the turn of \<open>roomCode\<close>. (\<open>socket.rooms\<close> is
  a set, so each room has one turn.)
\<close>

fun disconnecting_loop :: "string \<Rightarrow> (string \<Rightarrow> int) \<Rightarrow> string list \<Rightarrow> server \<Rightarrow> server" where
  "disconnecting_loop sid now [] st = st"
| "disconnecting_loop sid now (roomCode # rest) st =
     (case rooms_get (rooms st) roomCode of
        Absent \<Rightarrow> disconnecting_loop sid now rest st
      | Inherited \<Rightarrow> throw_TypeError st
      | Own r \<Rightarrow>
          disconnecting_loop sid now rest
            (emit (To_room roomCode) (User_left sid)
               (st\<lparr>rooms := AList.update roomCode
                     (r\<lparr>users := filter (\<lambda>u. u_id u \<noteq> sid) (users r),
                        lastActivity := now roomCode\<rparr>)
                     (rooms st)\<rparr>)))"

definition disconnecting :: "string \<Rightarrow> (string \<Rightarrow> int) \<Rightarrow> server \<Rightarrow> server" where
  "disconnecting sid now st = disconnecting_loop sid now (socket_rooms st sid) st"

text \<open>
  The events a connection can send. The handlers above take each reading of the clock as a
  parameter of its own; \<open>on_event now\<close> is the special case of a handler that runs while the
  clock shows \<open>now\<close> throughout.
\<close>

datatype client_event =
    Join_room string string
  | Send_message string string js_value
  | Generate_summary string
  | Disconnecting

fun on_event :: "int \<Rightarrow> string \<Rightarrow> client_event \<Rightarrow> server \<Rightarrow> server" where
  "on_event now sid (Join_room roomCode username) st = join_room sid roomCode username now st"
| "on_event now sid (Send_message roomCode username message) st =
     send_message sid roomCode username message now now st"
| "on_event now sid (Generate_summary roomCode) st = generate_summary sid roomCode st"
| "on_event now sid Disconnecting st = disconnecting sid (\<lambda>roomCode. now) st"

subsection \<open>Example states\<close>

text \<open>
  A room as \<open>/api/create-room\<close> makes it, at the instant 0 and under the code \<open>AB12CD\<close>, and a
  server that holds only this room.
\<close>

definition new_room :: room where
  "new_room = \<lparr>users = [], messages = [], lastActivity = 0, createdAt = 0\<rparr>"

definition new_server :: server where
  "new_server = \<lparr>rooms = [(''AB12CD'', new_room)], socket_rooms = (\<lambda>sid. []), effects = []\<rparr>"

text \<open>
  The same room after Alice (connection \<open>s1\<close>) and Bob (connection \<open>s2\<close>) have joined and
  Alice has sent \<open>hi\<close>, the last of this at the instant 1000.
\<close>

definition demo_room :: room where
  "demo_room =
     \<lparr>users = [\<lparr>u_id = ''s1'', u_username = ''Alice''\<rparr>, \<lparr>u_id = ''s2'', u_username = ''Bob''\<rparr>],
      messages = [\<lparr>m_username = ''Alice'', m_message = js_str ''hi'', m_timestamp = 1000\<rparr>],
      lastActivity = 1000,
      createdAt = 0\<rparr>"

text \<open>The room when Alice has sent \<open>hi\<close> a thousand times.\<close>

definition full_room :: room where
  "full_room =
     demo_room\<lparr>messages :=
       replicate 1000 \<lparr>m_username = ''Alice'', m_message = js_str ''hi'', m_timestamp = 1000\<rparr>\<rparr>"

definition demo_socket_rooms :: "string \<Rightarrow> string list" where
  "demo_socket_rooms sid =
     (if sid = ''s1'' then [''s1'', ''AB12CD'']
      else if sid = ''s2'' then [''s2'', ''AB12CD'']
      else [])"

definition demo_server :: server where
  "demo_server = \<lparr>rooms = [(''AB12CD'', demo_room)], socket_rooms = demo_socket_rooms, effects = []\<rparr>"

text \<open>
  The new room after one connection has sent \<open>join_room\<close> for it twice.
\<close>

definition rejoined_server :: server where
  "rejoined_server =
     join_room ''s1'' ''AB12CD'' ''Alice'' 20
       (join_room ''s1'' ''AB12CD'' ''Alice'' 10 (connection ''s1'' new_server))"

text \<open>
  Readings of the clock for a disconnect: 2000 in the turn of the room \<open>AB12CD\<close>, 2001 in
  any other turn.
\<close>

definition demo_clock :: "string \<Rightarrow> int" where
  "demo_clock roomCode = (if roomCode = ''AB12CD'' then 2000 else 2001)"

text \<open>
  What \<open>JSON.parse\<close> does on the three texts of the examples: \<open>null\<close> is the value
  \<open>null\<close>, \<open>{}\<close> is an object without properties, and \<open>Sorry\<close> is not JSON. The examples
  apply it to no other text.
\<close>

definition demo_parse :: "js_string \<Rightarrow> js_value option" where
  "demo_parse s =
     (if s = js_str ''null'' then Some JNull
      else if s = js_str ''{}'' then Some (JObj [])
      else None)"

section \<open>Properties\<close>

subsection \<open>Lemmas about the table of rooms\<close>

lemma rooms_get_update_same: "rooms_get (AList.update c r rs) c = Own r"
  by (simp add: rooms_get_def update_conv')

lemma rooms_get_update_other: "c' \<noteq> c \<Longrightarrow> rooms_get (AList.update c r rs) c' = rooms_get rs c'"
  by (simp add: rooms_get_def update_conv')



lemma generate_summary_accepted:
  assumes "rooms_get (rooms st) roomCode = Own r" and "messages r \<noteq> []"
  shows "generate_summary sid roomCode st =
           st\<lparr>effects := effects st @
                 [Emit (To_socket sid) (Summary_generating roomCode),
                  Generate_content sid roomCode (messages r)]\<rparr>"
  using assms by (simp add: generate_summary_def generateSummary_request_def emit_def Let_def)

lemma rooms_generate_summary: "rooms (generate_summary sid roomCode st) = rooms st"
  by (simp add: generate_summary_def emit_def Let_def split: property.splits sum.splits)

lemma rooms_generate_summary_resume:
  "rooms (generate_summary_resume sid roomCode room parse reply st) = rooms st"
  by (simp add: generate_summary_resume_def emit_def Let_def split: sum.splits)

lemma generateSummary_reply_failure:
  assumes "reply = Rejected \<or> (\<exists>text. reply = Replied text \<and> parse (cleanedText text) = None)"
  shows "generateSummary_reply parse reply = Inl ''Failed to generate summary. Please try again.''"
  using assms by (auto simp: generateSummary_reply_def)

lemma structure_summary_Some:
  assumes "v \<noteq> JNull" and "v \<noteq> JUndefined"
  shows "\<exists>s k a. get_property v (js_str ''summary'') = Some s
     \<and> get_property v (js_str ''keyPoints'') = Some k
     \<and> get_property v (js_str ''actionItems'') = Some a
     \<and> structure_summary v =
         Some \<lparr>s_summary = (if truthy s then s else JStr (js_str ''No summary available'')),
               s_keyPoints = array_or_empty k, s_actionItems = array_or_empty a\<rparr>"
  using assms by (cases v) (auto simp: structure_summary_def split: option.splits)

lemma validateMessage_Valid_text: "validateMessage message = Valid \<Longrightarrow> \<exists>s. message = JStr s"
  by (cases message) (simp_all add: validateMessage_def)

lemma disconnecting_loop_other:
  "c \<notin> set cs \<Longrightarrow> rooms_get (rooms (disconnecting_loop sid now cs st)) c = rooms_get (rooms st) c"
proof (induction cs arbitrary: st)
  case Nil
  show ?case by simp
next
  case (Cons b cs)
  then have "c \<noteq> b" and "c \<notin> set cs" by auto
  with Cons.IH show ?case
    by (cases "rooms_get (rooms st) b")
      (simp_all add: throw_TypeError_def emit_def rooms_get_update_other)
qed

lemma disconnecting_loop_fixed:
  assumes "rooms_get (rooms st) c = Own r"
    and "r\<lparr>users := filter (\<lambda>u. u_id u \<noteq> sid) (users r), lastActivity := now c\<rparr> = r"
  shows "rooms_get (rooms (disconnecting_loop sid now cs st)) c = Own r"
  using assms(1)
proof (induction cs arbitrary: st)
  case Nil
  then show ?case by simp
next
  case (Cons b cs)
  show ?case
  proof (cases "rooms_get (rooms st) b")
    case Absent
    with Cons show ?thesis by simp
  next
    case Inherited
    with Cons.prems show ?thesis by (simp add: throw_TypeError_def)
  next
    case (Own rb)
    let ?st1 = "emit (To_room b) (User_left sid)
      (st\<lparr>rooms := AList.update b
         (rb\<lparr>users := filter (\<lambda>u. u_id u \<noteq> sid) (users rb), lastActivity := now b\<rparr>) (rooms st)\<rparr>)"
    have "rooms_get (rooms ?st1) c = Own r"
    proof (cases "c = b")
      case True
      with Own Cons.prems have "rb = r" by simp
      with True assms(2) show ?thesis
        by (simp add: emit_def rooms_get_update_same)
    next
      case False
      with Cons.prems show ?thesis
        by (simp add: emit_def rooms_get_update_other)
    qed
    from Cons.IH [OF this] Own show ?thesis by simp
  qed
qed

lemma disconnecting_loop_reaches:
  assumes "rooms_get (rooms st) c = Own r"
    and "\<forall>b \<in> set before. rooms_get (rooms st) b \<noteq> Inherited"
  shows "rooms_get (rooms (disconnecting_loop sid now (before @ c # after) st)) c =
           Own (r\<lparr>users := filter (\<lambda>u. u_id u \<noteq> sid) (users r), lastActivity := now c\<rparr>)"
  using assms
proof (induction before arbitrary: st r)
  case Nil
  let ?r1 = "r\<lparr>users := filter (\<lambda>u. u_id u \<noteq> sid) (users r), lastActivity := now c\<rparr>"
  let ?st1 = "emit (To_room c) (User_left sid) (st\<lparr>rooms := AList.update c ?r1 (rooms st)\<rparr>)"
  have "rooms_get (rooms ?st1) c = Own ?r1"
    by (simp add: emit_def rooms_get_update_same)
  moreover have "?r1\<lparr>users := filter (\<lambda>u. u_id u \<noteq> sid) (users ?r1), lastActivity := now c\<rparr> = ?r1"
    by simp
  ultimately have "rooms_get (rooms (disconnecting_loop sid now after ?st1)) c = Own ?r1"
    by (rule disconnecting_loop_fixed)
  with Nil.prems(1) show ?case by simp
next
  case (Cons b before)
  show ?case
  proof (cases "rooms_get (rooms st) b")
    case Absent
    with Cons show ?thesis by simp
  next
    case Inherited
    with Cons.prems show ?thesis by simp
  next
    case (Own rb)
    let ?rb1 = "rb\<lparr>users := filter (\<lambda>u. u_id u \<noteq> sid) (users rb), lastActivity := now b\<rparr>"
    let ?st1 = "emit (To_room b) (User_left sid) (st\<lparr>rooms := AList.update b ?rb1 (rooms st)\<rparr>)"
    have get1: "rooms_get (rooms ?st1) c' = (if c' = b then Own ?rb1 else rooms_get (rooms st) c')" for c'
      by (simp add: emit_def rooms_get_update_same rooms_get_update_other)
    with Cons.prems(2) have free: "\<forall>b' \<in> set before. rooms_get (rooms ?st1) b' \<noteq> Inherited"
      by simp
    have step: "disconnecting_loop sid now ((b # before) @ c # after) st =
        disconnecting_loop sid now (before @ c # after) ?st1"
      using Own by simp
    show ?thesis
    proof (cases "c = b")
      case True
      with Own Cons.prems(1) have "rb = r" by simp
      with True get1 have "rooms_get (rooms ?st1) c =
          Own (r\<lparr>users := filter (\<lambda>u. u_id u \<noteq> sid) (users r), lastActivity := now c\<rparr>)"
        by simp
      from Cons.IH [OF this free] show ?thesis
        unfolding step by simp
    next
      case False
      with get1 Cons.prems(1) have "rooms_get (rooms ?st1) c = Own r" by simp
      from Cons.IH [OF this free] show ?thesis
        unfolding step .
    qed
  qed
qed

lemma count_list_filter_others:
  "length (filter (\<lambda>u. u_id u \<noteq> sid) us) + count_list (map u_id us) sid = length us"
  by (induction us) auto

lemma trim_letter_then_spaces: "trim (0x61 # replicate n 0x20) = [0x61]"
proof -
  have "is_white_space 0x20" and "\<not> is_white_space 0x61"
    by (simp_all add: is_white_space_def)
  then show ?thesis by (simp add: trim_def dropWhile_append)
qed

lemma trim_hi: "trim (js_str ''hi'') = js_str ''hi''"
  by (simp add: trim_def js_str_def is_white_space_def)

lemma trim_padded_hi: "trim (js_str '' hi  '') = js_str ''hi''"
  by (simp add: trim_def js_str_def is_white_space_def)

lemma rooms_get_demo_server: "rooms_get (rooms demo_server) ''AB12CD'' = Own demo_room"
  by (simp add: demo_server_def rooms_get_def)

subsection \<open>Joining a room\<close>

text \<open>
  C10. For every room that exists and every display name, \<open>join_room\<close> succeeds: the
  participant is appended to the room's participants, however many there are already, the
  room's activity is set to the current time, and the only thing sent is the notice to the
  room that the user joined; no error is sent. The handler has no check besides the one for
  the room's existence.
\<close>

theorem join_room_always_succeeds:
  assumes "rooms_get (rooms st) roomCode = Own r"
  shows "rooms_get (rooms (join_room sid roomCode username now st)) roomCode =
           Own (r\<lparr>users := users r @ [\<lparr>u_id = sid, u_username = username\<rparr>], lastActivity := now\<rparr>)
       \<and> effects (join_room sid roomCode username now st) =
           effects st @ [Emit (To_room roomCode) (User_joined username)]"
  using assms
  by (simp add: join_room_def emit_def socket_join_def rooms_get_update_same)

text \<open>A third participant joins the room of Alice and Bob.\<close>

theorem join_room_always_succeeds_witness:
  "rooms_get (rooms demo_server) ''AB12CD'' = Own demo_room
   \<and> rooms_get (rooms (join_room ''s3'' ''AB12CD'' ''Carol'' 2000 demo_server)) ''AB12CD'' =
       Own \<lparr>users = [\<lparr>u_id = ''s1'', u_username = ''Alice''\<rparr>, \<lparr>u_id = ''s2'', u_username = ''Bob''\<rparr>,
                     \<lparr>u_id = ''s3'', u_username = ''Carol''\<rparr>],
            messages = [\<lparr>m_username = ''Alice'', m_message = js_str ''hi'', m_timestamp = 1000\<rparr>],
            lastActivity = 2000,
            createdAt = 0\<rparr>
   \<and> effects (join_room ''s3'' ''AB12CD'' ''Carol'' 2000 demo_server) =
       [Emit (To_room ''AB12CD'') (User_joined ''Carol'')]"
proof -
  have h: "rooms_get (rooms demo_server) ''AB12CD'' = Own demo_room"
    by (simp add: demo_server_def rooms_get_def)
  show ?thesis
    using h join_room_always_succeeds [OF h, of "''s3''" "''Carol''" 2000]
    by (simp add: demo_room_def demo_server_def)
qed

subsection \<open>Asking for a summary of an empty room\<close>

text \<open>
  C5. For every room that exists and holds no message, \<open>generate_summary\<close> sends the error
  \<open>No messages to summarize\<close> to the requester and does nothing else: the summarisation
  service is not called (no \<open>Generate_content\<close> is added), and the table of rooms, the room
  included, is as before.
\<close>

theorem generate_summary_empty_room:
  assumes "rooms_get (rooms st) roomCode = Own r" and "messages r = []"
  shows "generate_summary sid roomCode st =
           st\<lparr>effects := effects st @
                 [Emit (To_socket sid) (Error_message ''No messages to summarize'')]\<rparr>"
  using assms by (simp add: generate_summary_def emit_def)

theorem generate_summary_empty_room_witness:
  "rooms_get (rooms new_server) ''AB12CD'' = Own new_room
   \<and> messages new_room = []
   \<and> generate_summary ''s1'' ''AB12CD'' new_server =
       new_server\<lparr>effects := [Emit (To_socket ''s1'') (Error_message ''No messages to summarize'')]\<rparr>"
proof -
  have h1: "rooms_get (rooms new_server) ''AB12CD'' = Own new_room"
    by (simp add: new_server_def rooms_get_def)
  have h2: "messages new_room = []"
    by (simp add: new_room_def)
  show ?thesis
    using h1 h2 generate_summary_empty_room [OF h1 h2, of "''s1''"]
    by (simp add: new_server_def)
qed

subsection \<open>Sending to a full room\<close>

text \<open>
  C4. For every room that holds 1000 messages (\<open>MAX_MESSAGES_PER_ROOM\<close>), \<open>send_message\<close>
  with a text that passes validation sends the error \<open>Room has reached maximum message limit of 1000\<close>
  to the sender and changes nothing else: the table of rooms is as before, so the
  room still holds the same 1000 messages.
\<close>

theorem send_message_room_full:
  assumes "rooms_get (rooms st) roomCode = Own r"
    and "length (messages r) = 1000"
    and "validateMessage message = Valid"
  shows "send_message sid roomCode username message ts now st =
           st\<lparr>effects := effects st @
                 [Emit (To_socket sid)
                    (Error_message ''Room has reached maximum message limit of 1000'')]\<rparr>"
  using assms
  by (simp add: send_message_def hasReachedMessageLimit_def MAX_MESSAGES_PER_ROOM_def emit_def)

theorem send_message_room_full_witness:
  "rooms_get (rooms (demo_server\<lparr>rooms := [(''AB12CD'', full_room)]\<rparr>)) ''AB12CD'' = Own full_room
   \<and> length (messages full_room) = 1000
   \<and> validateMessage (JStr (js_str ''hi'')) = Valid
   \<and> send_message ''s2'' ''AB12CD'' ''Bob'' (JStr (js_str ''hi'')) 2000 2001
         (demo_server\<lparr>rooms := [(''AB12CD'', full_room)]\<rparr>) =
       demo_server\<lparr>rooms := [(''AB12CD'', full_room)],
          effects := [Emit (To_socket ''s2'')
                        (Error_message ''Room has reached maximum message limit of 1000'')]\<rparr>"
proof -
  let ?st = "demo_server\<lparr>rooms := [(''AB12CD'', full_room)]\<rparr>"
  have h1: "rooms_get (rooms ?st) ''AB12CD'' = Own full_room"
    by (simp add: rooms_get_def)
  have h2: "length (messages full_room) = 1000"
    by (simp add: full_room_def)
  have h3: "validateMessage (JStr (js_str ''hi'')) = Valid"
    by (simp add: validateMessage_def trim_hi MAX_CHARACTERS_PER_MESSAGE_def) (simp add: js_str_def)
  show ?thesis
    using h1 h2 h3 send_message_room_full [OF h1 h2 h3, of "''s2''" "''Bob''" 2000 2001]
    by (simp add: demo_server_def)
qed

subsection \<open>The inactivity sweep\<close>



subsection \<open>Sending a message\<close>

text \<open>
  C3 (amended). For every text \<open>t\<close> that is not empty after trimming and whose untrimmed
  length is at most 5000 (\<open>MAX_CHARACTERS_PER_MESSAGE\<close>), \<open>send_message\<close> on a room that
  exists and holds fewer than 1000 messages succeeds: the message appended to the room has the
  text \<open>trim t\<close>, and \<open>trim t\<close> is what is sent to the room. The length that is checked is
  that of \<open>t\<close> as received, not that of \<open>trim t\<close>.
\<close>

theorem send_message_stores_trimmed:
  assumes "rooms_get (rooms st) roomCode = Own r"
    and "length (messages r) < 1000"
    and "0 < length (trim t)"
    and "length t \<le> 5000"
  shows "rooms_get (rooms (send_message sid roomCode username (JStr t) ts now st)) roomCode =
           Own (r\<lparr>messages := messages r @
                      [\<lparr>m_username = username, m_message = trim t, m_timestamp = ts\<rparr>],
                   lastActivity := now\<rparr>)
       \<and> effects (send_message sid roomCode username (JStr t) ts now st) =
           effects st @ [Emit (To_room roomCode) (Receive_message username (trim t))]"
proof -
  from assms(3) have "t \<noteq> []" by (auto simp: trim_def)
  with assms(3,4) have "validateMessage (JStr t) = Valid"
    by (simp add: validateMessage_def MAX_CHARACTERS_PER_MESSAGE_def)
  moreover from assms(1,2) have "\<not> hasReachedMessageLimit (rooms st) roomCode"
    by (simp add: hasReachedMessageLimit_def MAX_MESSAGES_PER_ROOM_def)
  ultimately show ?thesis
    using assms(1) by (simp add: send_message_def emit_def rooms_get_update_same)
qed

text \<open>Bob answers Alice with \<open>hi\<close> between spaces.\<close>

theorem send_message_stores_trimmed_witness:
  "rooms_get (rooms demo_server) ''AB12CD'' = Own demo_room
   \<and> length (messages demo_room) < 1000
   \<and> 0 < length (trim (js_str '' hi  ''))
   \<and> length (js_str '' hi  '') \<le> 5000
   \<and> rooms_get (rooms (send_message ''s2'' ''AB12CD'' ''Bob'' (JStr (js_str '' hi  '')) 2000 2001
                        demo_server)) ''AB12CD'' =
       Own (demo_room\<lparr>messages :=
              [\<lparr>m_username = ''Alice'', m_message = js_str ''hi'', m_timestamp = 1000\<rparr>,
               \<lparr>m_username = ''Bob'', m_message = js_str ''hi'', m_timestamp = 2000\<rparr>],
            lastActivity := 2001\<rparr>)
   \<and> effects (send_message ''s2'' ''AB12CD'' ''Bob'' (JStr (js_str '' hi  '')) 2000 2001 demo_server) =
       [Emit (To_room ''AB12CD'') (Receive_message ''Bob'' (js_str ''hi''))]"
proof -
  have h2: "length (messages demo_room) < 1000"
    by (simp add: demo_room_def)
  have h3: "0 < length (trim (js_str '' hi  ''))"
    by (simp add: trim_padded_hi) (simp add: js_str_def)
  have h4: "length (js_str '' hi  '') \<le> 5000"
    by (simp add: js_str_def)
  show ?thesis
    using h2 h3 h4
      send_message_stores_trimmed [OF rooms_get_demo_server h2 h3 h4, of "''s2''" "''Bob''" 2000 2001]
    by (simp add: rooms_get_demo_server trim_padded_hi) (simp add: demo_room_def demo_server_def)
qed

text \<open>
  The specification bounds the trimmed length only. The letter \<open>a\<close> followed by 5000
  spaces has the trimmed length 1, and it is rejected for its length; the room is unchanged.
\<close>

theorem send_message_long_padding_rejected:
  "length (trim (0x61 # replicate 5000 0x20)) = 1
   \<and> send_message ''s1'' ''AB12CD'' ''Alice'' (JStr (0x61 # replicate 5000 0x20)) 2000 2001
         demo_server =
       demo_server\<lparr>effects := [Emit (To_socket ''s1'')
          (Error_message ''Message exceeds maximum length of 5000 characters'')]\<rparr>"
  by (simp add: trim_letter_then_spaces send_message_def validateMessage_def
      MAX_CHARACTERS_PER_MESSAGE_def emit_def demo_server_def rooms_get_def)

subsection \<open>Asking for a summary\<close>

text \<open>
  C1 (amended). When a request for a summary is accepted, the room is left as it is (the server
  records nowhere that a summary is being made), the requester is told that the summary is
  being generated, and the summarisation service is called. A second request for the same
  room that arrives before the first one's reply is accepted in the same way: both requests
  reach the call to the service, and neither gets an error.
\<close>

theorem generate_summary_twice:
  assumes "rooms_get (rooms st) roomCode = Own r" and "messages r \<noteq> []"
  shows "generate_summary sid2 roomCode (generate_summary sid1 roomCode st) =
           st\<lparr>effects := effects st @
                 [Emit (To_socket sid1) (Summary_generating roomCode),
                  Generate_content sid1 roomCode (messages r),
                  Emit (To_socket sid2) (Summary_generating roomCode),
                  Generate_content sid2 roomCode (messages r)]\<rparr>"
proof -
  let ?st1 = "generate_summary sid1 roomCode st"
  have first: "?st1 = st\<lparr>effects := effects st @
                 [Emit (To_socket sid1) (Summary_generating roomCode),
                  Generate_content sid1 roomCode (messages r)]\<rparr>"
    using assms by (rule generate_summary_accepted)
  then have "rooms_get (rooms ?st1) roomCode = Own r"
    using assms(1) by simp
  then have "generate_summary sid2 roomCode ?st1 =
           ?st1\<lparr>effects := effects ?st1 @
                 [Emit (To_socket sid2) (Summary_generating roomCode),
                  Generate_content sid2 roomCode (messages r)]\<rparr>"
    using assms(2) by (rule generate_summary_accepted)
  then show ?thesis unfolding first by simp
qed

theorem generate_summary_twice_witness:
  "rooms_get (rooms demo_server) ''AB12CD'' = Own demo_room
   \<and> messages demo_room \<noteq> []
   \<and> generate_summary ''s2'' ''AB12CD'' (generate_summary ''s1'' ''AB12CD'' demo_server) =
       demo_server\<lparr>effects :=
         [Emit (To_socket ''s1'') (Summary_generating ''AB12CD''),
          Generate_content ''s1'' ''AB12CD'' (messages demo_room),
          Emit (To_socket ''s2'') (Summary_generating ''AB12CD''),
          Generate_content ''s2'' ''AB12CD'' (messages demo_room)]\<rparr>"
proof -
  have h2: "messages demo_room \<noteq> []"
    by (simp add: demo_room_def)
  show ?thesis
    using h2 generate_summary_twice [OF rooms_get_demo_server h2, of "''s2''" "''s1''"]
    by (simp add: rooms_get_demo_server) (simp add: demo_server_def)
qed

text \<open>
  The specification has the second of two requests fail. Alice and Bob both ask for a
  summary of their room, Bob before the reply to Alice's request is there: the service is
  called for each of them, and no error is sent.
\<close>

theorem second_request_reaches_gateway:
  "effects (generate_summary ''s2'' ''AB12CD'' (generate_summary ''s1'' ''AB12CD'' demo_server)) =
     [Emit (To_socket ''s1'') (Summary_generating ''AB12CD''),
      Generate_content ''s1'' ''AB12CD''
        [\<lparr>m_username = ''Alice'', m_message = js_str ''hi'', m_timestamp = 1000\<rparr>],
      Emit (To_socket ''s2'') (Summary_generating ''AB12CD''),
      Generate_content ''s2'' ''AB12CD''
        [\<lparr>m_username = ''Alice'', m_message = js_str ''hi'', m_timestamp = 1000\<rparr>]]"
  by (simp add: generate_summary_def generateSummary_request_def emit_def Let_def demo_server_def
      demo_room_def rooms_get_def)

text \<open>
  C6. When the summarisation service fails, or its reply cannot be parsed, the handler sends
  the error \<open>Failed to generate summary. Please try again.\<close> to the requester and does
  nothing else: nothing is sent to the room, no clean-up is scheduled, and the table of rooms
  is as before, so the room is still there with its messages. A request for a summary of that
  room made afterwards is accepted and reaches the call to the service.
\<close>

theorem gateway_failure_keeps_room:
  assumes "reply = Rejected \<or> (\<exists>text. reply = Replied text \<and> parse (cleanedText text) = None)"
    and "rooms_get (rooms st) roomCode = Own r" and "messages r \<noteq> []"
  shows "generate_summary_resume sid roomCode room parse reply st =
           st\<lparr>effects := effects st @
                 [Emit (To_socket sid)
                    (Error_message ''Failed to generate summary. Please try again.'')]\<rparr>
       \<and> rooms_get (rooms (generate_summary_resume sid roomCode room parse reply st)) roomCode = Own r
       \<and> effects (generate_summary sid2 roomCode
                    (generate_summary_resume sid roomCode room parse reply st)) =
           effects (generate_summary_resume sid roomCode room parse reply st) @
             [Emit (To_socket sid2) (Summary_generating roomCode),
              Generate_content sid2 roomCode (messages r)]"
proof -
  let ?st' = "generate_summary_resume sid roomCode room parse reply st"
  have failed: "?st' = st\<lparr>effects := effects st @
                 [Emit (To_socket sid)
                    (Error_message ''Failed to generate summary. Please try again.'')]\<rparr>"
    by (simp add: generate_summary_resume_def generateSummary_reply_failure [OF assms(1)] emit_def)
  then have kept: "rooms_get (rooms ?st') roomCode = Own r"
    using assms(2) by simp
  from generate_summary_accepted [OF kept assms(3)] failed kept show ?thesis
    by simp
qed

text \<open>
  Alice has asked for a summary and the service answers \<open>Sorry\<close>, which is not JSON. Bob asks
  again.
\<close>

theorem gateway_failure_keeps_room_witness:
  "demo_parse (cleanedText (js_str ''Sorry'')) = None
   \<and> rooms_get (rooms demo_server) ''AB12CD'' = Own demo_room
   \<and> messages demo_room \<noteq> []
   \<and> generate_summary_resume ''s1'' ''AB12CD'' demo_room demo_parse (Replied (js_str ''Sorry''))
         demo_server =
       demo_server\<lparr>effects :=
         [Emit (To_socket ''s1'') (Error_message ''Failed to generate summary. Please try again.'')]\<rparr>
   \<and> effects (generate_summary ''s2'' ''AB12CD''
        (generate_summary_resume ''s1'' ''AB12CD'' demo_room demo_parse (Replied (js_str ''Sorry''))
           demo_server)) =
       [Emit (To_socket ''s1'') (Error_message ''Failed to generate summary. Please try again.''),
        Emit (To_socket ''s2'') (Summary_generating ''AB12CD''),
        Generate_content ''s2'' ''AB12CD'' (messages demo_room)]"
proof -
  have unparsed: "demo_parse (cleanedText (js_str ''Sorry'')) = None"
    by (simp add: demo_parse_def cleanedText_def trim_def js_str_def is_white_space_def
        startsWith_def fence_def)
  then have h1: "Replied (js_str ''Sorry'') = Rejected
      \<or> (\<exists>text. Replied (js_str ''Sorry'') = Replied text \<and> demo_parse (cleanedText text) = None)"
    by simp
  have h3: "messages demo_room \<noteq> []"
    by (simp add: demo_room_def)
  note failure = gateway_failure_keeps_room [OF h1 rooms_get_demo_server h3,
      of "''s1''" demo_room "''s2''"]
  let ?failed = "generate_summary_resume ''s1'' ''AB12CD'' demo_room demo_parse
      (Replied (js_str ''Sorry'')) demo_server"
  have "effects demo_server = []"
    by (simp add: demo_server_def)
  with failure [THEN conjunct1] have a: "?failed = demo_server\<lparr>effects :=
      [Emit (To_socket ''s1'') (Error_message ''Failed to generate summary. Please try again.'')]\<rparr>"
    by simp
  from failure [THEN conjunct2, THEN conjunct2] have b: "effects (generate_summary ''s2'' ''AB12CD'' ?failed) =
      [Emit (To_socket ''s1'') (Error_message ''Failed to generate summary. Please try again.''),
       Emit (To_socket ''s2'') (Summary_generating ''AB12CD''),
       Generate_content ''s2'' ''AB12CD'' (messages demo_room)]"
    by (simp add: a)
  from unparsed h3 a b show ?thesis
    using rooms_get_demo_server by blast
qed

subsection \<open>The reply of the summarisation service\<close>

text \<open>
  C7 (amended). For every reply whose cleaned text parses to a value other than \<open>null\<close>, the
  gateway returns a summary and no error. In it a missing \<open>summary\<close> is replaced by the text
  \<open>No summary available\<close>, a missing \<open>keyPoints\<close> by the empty list and a missing
  \<open>actionItems\<close> by the empty list. So an error is returned only when the service fails,
  when the reply cannot be parsed, or when it parses to \<open>null\<close>.
\<close>

theorem generateSummary_reply_defaults:
  assumes "parse (cleanedText text) = Some v" and "v \<noteq> JNull" and "v \<noteq> JUndefined"
  shows "\<exists>s. generateSummary_reply parse (Replied text) = Inr s
       \<and> (get_property v (js_str ''summary'') = Some JUndefined \<longrightarrow>
            s_summary s = JStr (js_str ''No summary available''))
       \<and> (get_property v (js_str ''keyPoints'') = Some JUndefined \<longrightarrow> s_keyPoints s = [])
       \<and> (get_property v (js_str ''actionItems'') = Some JUndefined \<longrightarrow> s_actionItems s = [])"
proof -
  from structure_summary_Some [OF assms(2,3)] obtain s k a where
    got: "get_property v (js_str ''summary'') = Some s"
      "get_property v (js_str ''keyPoints'') = Some k"
      "get_property v (js_str ''actionItems'') = Some a"
    and built: "structure_summary v =
         Some \<lparr>s_summary = (if truthy s then s else JStr (js_str ''No summary available'')),
               s_keyPoints = array_or_empty k, s_actionItems = array_or_empty a\<rparr>"
    by blast
  from assms(1) built have "generateSummary_reply parse (Replied text) =
      Inr \<lparr>s_summary = (if truthy s then s else JStr (js_str ''No summary available'')),
               s_keyPoints = array_or_empty k, s_actionItems = array_or_empty a\<rparr>"
    by (simp add: generateSummary_reply_def)
  with got show ?thesis by auto
qed

text \<open>
  The service answers with an empty object inside a fenced block marked \<open>json\<close>. All three
  fields are missing.
\<close>

theorem generateSummary_reply_defaults_witness:
  "demo_parse (cleanedText (fence @ js_str ''json'' @ [0x0A] @ js_str ''{}'' @ [0x0A] @ fence)) =
       Some (JObj [])
   \<and> JObj [] \<noteq> JNull \<and> JObj [] \<noteq> JUndefined
   \<and> get_property (JObj []) (js_str ''summary'') = Some JUndefined
   \<and> get_property (JObj []) (js_str ''keyPoints'') = Some JUndefined
   \<and> get_property (JObj []) (js_str ''actionItems'') = Some JUndefined
   \<and> generateSummary_reply demo_parse
         (Replied (fence @ js_str ''json'' @ [0x0A] @ js_str ''{}'' @ [0x0A] @ fence)) =
       Inr \<lparr>s_summary = JStr (js_str ''No summary available''),
            s_keyPoints = [], s_actionItems = []\<rparr>"
proof -
  let ?text = "fence @ js_str ''json'' @ [0x0A] @ js_str ''{}'' @ [0x0A] @ fence"
  have "cleanedText ?text = js_str ''{}''"
    by (simp add: cleanedText_def trim_def js_str_def is_white_space_def startsWith_def fence_def
        strip_opening_def strip_closing_def Let_def)
  then have h1: "demo_parse (cleanedText ?text) = Some (JObj [])"
    by (simp add: demo_parse_def) (simp add: js_str_def)
  have h2: "JObj [] \<noteq> JNull" and h3: "JObj [] \<noteq> JUndefined"
    by simp_all
  from generateSummary_reply_defaults [of demo_parse ?text "JObj []", OF h1 h2 h3] obtain s where
    "generateSummary_reply demo_parse (Replied ?text) = Inr s"
    and "s_summary s = JStr (js_str ''No summary available'')"
    and "s_keyPoints s = []" and "s_actionItems s = []"
    by auto
  then have "generateSummary_reply demo_parse (Replied ?text) =
      Inr \<lparr>s_summary = JStr (js_str ''No summary available''), s_keyPoints = [], s_actionItems = []\<rparr>"
    by simp
  with h1 show ?thesis by simp
qed

text \<open>
  The specification has an error only for a reply that cannot be parsed, and an empty
  text for a missing \<open>summary\<close>. The reply \<open>null\<close> is JSON and parses; reading its
  \<open>summary\<close> throws, and the gateway returns the error. For the reply \<open>{}\<close> the summary's
  text is \<open>No summary available\<close>, which is not the empty text.
\<close>

theorem null_reply_is_an_error:
  "cleanedText (js_str ''null'') = js_str ''null''
   \<and> demo_parse (js_str ''null'') = Some JNull
   \<and> generateSummary_reply demo_parse (Replied (js_str ''null'')) =
       Inl ''Failed to generate summary. Please try again.''
   \<and> generateSummary_reply demo_parse (Replied (js_str ''{}'')) =
       Inr \<lparr>s_summary = JStr (js_str ''No summary available''),
            s_keyPoints = [], s_actionItems = []\<rparr>
   \<and> JStr (js_str ''No summary available'') \<noteq> JStr []"
  by (simp add: generateSummary_reply_def demo_parse_def cleanedText_def trim_def js_str_def
      is_white_space_def startsWith_def fence_def structure_summary_def)

subsection \<open>Disconnecting\<close>

text \<open>
  C8 (amended). Let a room exist and a connection disconnect. If the room is among the
  connection's rooms and none of the connection's rooms before it is a key of
  \<open>Object.prototype\<close>, so that the handler's loop comes to the room, then the room loses
  exactly the participants recorded under the connection's identifier, all of them: the
  others stay, in their order, and the number removed is the number of entries under the
  identifier. If the room is not among the connection's rooms, it is left as it is. Each
  \<open>join_room\<close> of a connection for the room adds one entry under its identifier; so one
  participant is removed when the connection joined once, and more than one when it joined
  several times.
\<close>

theorem disconnecting_removes_all_entries:
  assumes "rooms_get (rooms st) roomCode = Own r"
  shows "(socket_rooms st sid = before @ roomCode # after
            \<and> (\<forall>c \<in> set before. rooms_get (rooms st) c \<noteq> Inherited) \<longrightarrow>
          rooms_get (rooms (disconnecting sid now st)) roomCode =
            Own (r\<lparr>users := filter (\<lambda>u. u_id u \<noteq> sid) (users r), lastActivity := now roomCode\<rparr>)
          \<and> length (room_users (rooms (disconnecting sid now st)) roomCode)
              + count_list (map u_id (users r)) sid = length (users r))
       \<and> (roomCode \<notin> set (socket_rooms st sid') \<longrightarrow>
            rooms_get (rooms (disconnecting sid' now st)) roomCode = Own r)
       \<and> count_list (map u_id (room_users (rooms (join_room sid roomCode username t st)) roomCode)) sid =
            Suc (count_list (map u_id (users r)) sid)"
proof -
  have reached: "rooms_get (rooms (disconnecting sid now st)) roomCode =
            Own (r\<lparr>users := filter (\<lambda>u. u_id u \<noteq> sid) (users r), lastActivity := now roomCode\<rparr>)
          \<and> length (room_users (rooms (disconnecting sid now st)) roomCode)
              + count_list (map u_id (users r)) sid = length (users r)"
    if turn: "socket_rooms st sid = before @ roomCode # after"
      and free: "\<forall>c \<in> set before. rooms_get (rooms st) c \<noteq> Inherited"
  proof -
    from disconnecting_loop_reaches [OF assms free, of sid now after] turn
    have left: "rooms_get (rooms (disconnecting sid now st)) roomCode =
        Own (r\<lparr>users := filter (\<lambda>u. u_id u \<noteq> sid) (users r), lastActivity := now roomCode\<rparr>)"
      by (simp add: disconnecting_def)
    then have "room_users (rooms (disconnecting sid now st)) roomCode =
        filter (\<lambda>u. u_id u \<noteq> sid) (users r)"
      by (simp add: room_users_def)
    with left show ?thesis
      by (simp add: count_list_filter_others)
  qed
  have other: "rooms_get (rooms (disconnecting sid' now st)) roomCode = Own r"
    if "roomCode \<notin> set (socket_rooms st sid')"
    using that assms by (simp add: disconnecting_def disconnecting_loop_other)
  have joined: "count_list (map u_id (room_users (rooms (join_room sid roomCode username t st)) roomCode)) sid =
      Suc (count_list (map u_id (users r)) sid)"
    using assms
    by (simp add: room_users_def join_room_def emit_def socket_join_def rooms_get_update_same)
  from reached other joined show ?thesis
    by blast
qed

text \<open>
  Alice (connection \<open>s1\<close>) disconnects and Bob stays; the disconnect of a connection \<open>s3\<close>
  that is not in the room changes nothing; a second \<open>join_room\<close> of Alice's connection
  gives it two entries.
\<close>

theorem disconnecting_removes_all_entries_witness:
  "rooms_get (rooms demo_server) ''AB12CD'' = Own demo_room
   \<and> socket_rooms demo_server ''s1'' = [''s1''] @ ''AB12CD'' # []
   \<and> rooms_get (rooms demo_server) ''s1'' = Absent
   \<and> rooms_get (rooms (disconnecting ''s1'' demo_clock demo_server)) ''AB12CD'' =
       Own (demo_room\<lparr>users := [\<lparr>u_id = ''s2'', u_username = ''Bob''\<rparr>], lastActivity := 2000\<rparr>)
   \<and> count_list (map u_id (users demo_room)) ''s1'' = 1
   \<and> length (users demo_room) = 2
   \<and> length (room_users (rooms (disconnecting ''s1'' demo_clock demo_server)) ''AB12CD'') = 1
   \<and> socket_rooms demo_server ''s3'' = []
   \<and> rooms_get (rooms (disconnecting ''s3'' demo_clock demo_server)) ''AB12CD'' = Own demo_room
   \<and> count_list
        (map u_id (room_users (rooms (join_room ''s1'' ''AB12CD'' ''Alice'' 3000 demo_server)) ''AB12CD''))
        ''s1'' = 2"
proof -
  have turn: "socket_rooms demo_server ''s1'' = [''s1''] @ ''AB12CD'' # []"
    by (simp add: demo_server_def demo_socket_rooms_def)
  have no_room: "rooms_get (rooms demo_server) ''s1'' = Absent"
    by (simp add: demo_server_def rooms_get_def object_prototype_keys_def)
  then have free: "\<forall>c \<in> set [''s1'']. rooms_get (rooms demo_server) c \<noteq> Inherited"
    by simp
  have away: "socket_rooms demo_server ''s3'' = []"
    by (simp add: demo_server_def demo_socket_rooms_def)
  then have out: "''AB12CD'' \<notin> set (socket_rooms demo_server ''s3'')"
    by simp
  have once: "count_list (map u_id (users demo_room)) ''s1'' = 1"
    and two: "length (users demo_room) = 2"
    and left: "filter (\<lambda>u. u_id u \<noteq> ''s1'') (users demo_room) = [\<lparr>u_id = ''s2'', u_username = ''Bob''\<rparr>]"
    and clock: "demo_clock ''AB12CD'' = 2000"
    by (simp_all add: demo_room_def demo_clock_def)
  note leave = disconnecting_removes_all_entries [OF rooms_get_demo_server,
      where sid = "''s1''" and before = "[''s1'']" and after = "[]" and now = demo_clock
        and sid' = "''s3''" and username = "''Alice''" and t = 3000]
  from leave turn free have a:
    "rooms_get (rooms (disconnecting ''s1'' demo_clock demo_server)) ''AB12CD'' =
       Own (demo_room\<lparr>users := [\<lparr>u_id = ''s2'', u_username = ''Bob''\<rparr>], lastActivity := 2000\<rparr>)"
    by (simp add: left clock)
  from leave turn free have
    "length (room_users (rooms (disconnecting ''s1'' demo_clock demo_server)) ''AB12CD'')
      + count_list (map u_id (users demo_room)) ''s1'' = length (users demo_room)"
    by blast
  then have b: "length (room_users (rooms (disconnecting ''s1'' demo_clock demo_server)) ''AB12CD'') = 1"
    by (simp add: once two)
  from leave out have c: "rooms_get (rooms (disconnecting ''s3'' demo_clock demo_server)) ''AB12CD'' = Own demo_room"
    by blast
  from leave have d: "count_list
        (map u_id (room_users (rooms (join_room ''s1'' ''AB12CD'' ''Alice'' 3000 demo_server)) ''AB12CD''))
        ''s1'' = 2"
    by (simp add: once)
  from turn no_room a once two b away c d show ?thesis
    using rooms_get_demo_server by blast
qed

text \<open>
  The specification has at most one participant removed per call. A connection that
  sent \<open>join_room\<close> twice for the same room is recorded twice, and its one disconnect removes
  both entries.
\<close>

theorem disconnecting_removes_two:
  "rooms rejoined_server =
     [(''AB12CD'',
       \<lparr>users = [\<lparr>u_id = ''s1'', u_username = ''Alice''\<rparr>, \<lparr>u_id = ''s1'', u_username = ''Alice''\<rparr>],
        messages = [], lastActivity = 20, createdAt = 0\<rparr>)]
   \<and> socket_rooms rejoined_server ''s1'' = [''s1'', ''AB12CD'']
   \<and> rooms (disconnecting ''s1'' demo_clock rejoined_server) =
     [(''AB12CD'', \<lparr>users = [], messages = [], lastActivity = 2000, createdAt = 0\<rparr>)]"
  by (simp add: rejoined_server_def join_room_def connection_def new_server_def new_room_def
      rooms_get_def emit_def socket_join_def disconnecting_def object_prototype_keys_def
      demo_clock_def)

subsection \<open>The time of the last activity\<close>

text \<open>
  C2 (amended). On a room that exists, each of these sets the room's \<open>lastActivity\<close> to the
  time the handler reads from the clock: every join, by any connection; every message that
  passes validation while the room holds fewer than 1000 messages, from any connection; and
  every disconnect of a connection whose loop comes to the room (the room is among the
  connection's rooms and none of its rooms before it is a key of \<open>Object.prototype\<close>). A
  request for a summary does not: neither the handler of the request nor its continuation at
  the reply changes the table of rooms, so \<open>lastActivity\<close> stays what it was.
\<close>

theorem lastActivity_set_by_join_send_leave:
  assumes "rooms_get (rooms st) roomCode = Own r"
  shows "room_lastActivity (rooms (join_room joiner roomCode name_j now_j st)) roomCode = Some now_j
       \<and> (validateMessage message = Valid \<and> length (messages r) < 1000 \<longrightarrow>
            room_lastActivity (rooms (send_message sender roomCode name_s message ts now_s st)) roomCode
              = Some now_s)
       \<and> (socket_rooms st leaver = before @ roomCode # after
            \<and> (\<forall>c \<in> set before. rooms_get (rooms st) c \<noteq> Inherited) \<longrightarrow>
            room_lastActivity (rooms (disconnecting leaver now_l st)) roomCode = Some (now_l roomCode))
       \<and> rooms (generate_summary requester roomCode st) = rooms st
       \<and> rooms (generate_summary_resume requester roomCode room parse reply st) = rooms st"
proof -
  have join: "room_lastActivity (rooms (join_room joiner roomCode name_j now_j st)) roomCode = Some now_j"
    using assms
    by (simp add: room_lastActivity_def join_room_def emit_def socket_join_def rooms_get_update_same)
  have send: "room_lastActivity (rooms (send_message sender roomCode name_s message ts now_s st)) roomCode
              = Some now_s"
    if valid: "validateMessage message = Valid" and room: "length (messages r) < 1000"
  proof -
    from valid obtain s where str: "message = JStr s"
      by (auto dest: validateMessage_Valid_text)
    from assms room have "\<not> hasReachedMessageLimit (rooms st) roomCode"
      by (simp add: hasReachedMessageLimit_def MAX_MESSAGES_PER_ROOM_def)
    with assms valid show ?thesis
      by (simp add: room_lastActivity_def str send_message_def emit_def rooms_get_update_same)
  qed
  have leave: "room_lastActivity (rooms (disconnecting leaver now_l st)) roomCode = Some (now_l roomCode)"
    if turn: "socket_rooms st leaver = before @ roomCode # after"
      and free: "\<forall>c \<in> set before. rooms_get (rooms st) c \<noteq> Inherited"
    using disconnecting_loop_reaches [OF assms free, of leaver now_l after] turn
    by (simp add: room_lastActivity_def disconnecting_def)
  from join send leave show ?thesis
    by (simp add: rooms_generate_summary rooms_generate_summary_resume)
qed

text \<open>
  Carol (connection \<open>s3\<close>) joins for the first time, Bob sends \<open>hi\<close>, Alice disconnects, and
  Alice asks for a summary, each on the room of Alice and Bob.
\<close>

theorem lastActivity_set_by_join_send_leave_witness:
  "rooms_get (rooms demo_server) ''AB12CD'' = Own demo_room
   \<and> socket_rooms demo_server ''s3'' = []
   \<and> room_lastActivity (rooms (join_room ''s3'' ''AB12CD'' ''Carol'' 2000 demo_server)) ''AB12CD'' =
       Some 2000
   \<and> validateMessage (JStr (js_str ''hi'')) = Valid
   \<and> length (messages demo_room) < 1000
   \<and> room_lastActivity
         (rooms (send_message ''s2'' ''AB12CD'' ''Bob'' (JStr (js_str ''hi'')) 2000 2001 demo_server))
         ''AB12CD'' = Some 2001
   \<and> socket_rooms demo_server ''s1'' = [''s1''] @ ''AB12CD'' # []
   \<and> rooms_get (rooms demo_server) ''s1'' = Absent
   \<and> room_lastActivity (rooms (disconnecting ''s1'' demo_clock demo_server)) ''AB12CD'' = Some 2000
   \<and> rooms (generate_summary ''s1'' ''AB12CD'' demo_server) = rooms demo_server
   \<and> rooms (generate_summary_resume ''s1'' ''AB12CD'' demo_room demo_parse Rejected demo_server) =
       rooms demo_server"
proof -
  have first: "socket_rooms demo_server ''s3'' = []"
    by (simp add: demo_server_def demo_socket_rooms_def)
  have valid: "validateMessage (JStr (js_str ''hi'')) = Valid"
    by (simp add: validateMessage_def trim_hi MAX_CHARACTERS_PER_MESSAGE_def) (simp add: js_str_def)
  have room: "length (messages demo_room) < 1000"
    by (simp add: demo_room_def)
  have turn: "socket_rooms demo_server ''s1'' = [''s1''] @ ''AB12CD'' # []"
    by (simp add: demo_server_def demo_socket_rooms_def)
  have no_room: "rooms_get (rooms demo_server) ''s1'' = Absent"
    by (simp add: demo_server_def rooms_get_def object_prototype_keys_def)
  then have free: "\<forall>c \<in> set [''s1'']. rooms_get (rooms demo_server) c \<noteq> Inherited"
    by simp
  have clock: "demo_clock ''AB12CD'' = 2000"
    by (simp add: demo_clock_def)
  note set = lastActivity_set_by_join_send_leave [OF rooms_get_demo_server,
      where joiner = "''s3''" and name_j = "''Carol''" and now_j = 2000
        and message = "JStr (js_str ''hi'')" and sender = "''s2''" and name_s = "''Bob''"
        and ts = 2000 and now_s = 2001
        and leaver = "''s1''" and before = "[''s1'']" and after = "[]" and now_l = demo_clock
        and requester = "''s1''" and room = demo_room and parse = demo_parse and reply = Rejected]
  from set valid room have b: "room_lastActivity
         (rooms (send_message ''s2'' ''AB12CD'' ''Bob'' (JStr (js_str ''hi'')) 2000 2001 demo_server))
         ''AB12CD'' = Some 2001"
    by blast
  from set turn free have c:
    "room_lastActivity (rooms (disconnecting ''s1'' demo_clock demo_server)) ''AB12CD'' = Some 2000"
    by (simp add: clock)
  from set first valid room b turn no_room c show ?thesis
    using rooms_get_demo_server by blast
qed

text \<open>
  The specification counts a request for a summary among the operations that set
  \<open>lastActivity\<close>. Alice's room was last active at the instant 1000; her request at the
  instant 2000 is accepted, and the room is unchanged, its \<open>lastActivity\<close> still 1000.
\<close>

theorem generate_summary_keeps_lastActivity:
  "effects (on_event 2000 ''s1'' (Generate_summary ''AB12CD'') demo_server) =
     [Emit (To_socket ''s1'') (Summary_generating ''AB12CD''),
      Generate_content ''s1'' ''AB12CD''
        [\<lparr>m_username = ''Alice'', m_message = js_str ''hi'', m_timestamp = 1000\<rparr>]]
   \<and> room_lastActivity (rooms (on_event 2000 ''s1'' (Generate_summary ''AB12CD'') demo_server))
         ''AB12CD'' = Some 1000"
  by (simp add: room_lastActivity_def generate_summary_def generateSummary_request_def emit_def
      Let_def demo_server_def demo_room_def rooms_get_def)

end
